theory Spec2Isabelle
  imports Complex_Main
begin


section \<open>Errors and the dense-array backend\<close>

text \<open>
  The exceptions of \<^verbatim>\<open>torchtt.errors\<close> together with the built-in Python exceptions
  that the modelled code paths can raise.  A raising call returns \<open>Inl e\<close>.
\<close>

datatype error =
    RankMismatch | InvalidArguments | ShapeMismatch | IncompatibleTypes
  | NotImplementedError | IndexError | TypeError | AttributeError
  | UnboundLocalError | RuntimeError | ValueError

definition bind_err :: "error + 'a \<Rightarrow> ('a \<Rightarrow> error + 'b) \<Rightarrow> error + 'b" where
  "bind_err m f = (case m of Inl e \<Rightarrow> Inl e | Inr v \<Rightarrow> f v)"

text \<open>A list comprehension or \<^verbatim>\<open>for\<close> loop whose body may raise: the first error wins.\<close>

fun map_err :: "('a \<Rightarrow> error + 'b) \<Rightarrow> 'a list \<Rightarrow> error + 'b list" where
  "map_err f [] = Inr []"
| "map_err f (x # xs) =
     (case f x of Inl e \<Rightarrow> Inl e
      | Inr y \<Rightarrow> (case map_err f xs of Inl e \<Rightarrow> Inl e | Inr ys \<Rightarrow> Inr (y # ys)))"

text \<open>Python list indexing with a non-negative index.\<close>

definition py_get :: "'a list \<Rightarrow> nat \<Rightarrow> error + 'a" where
  "py_get xs i = (if i < length xs then Inr (xs ! i) else Inl IndexError)"

text \<open>
  A \<^verbatim>\<open>torch.tensor\<close>: its shape and its entries, addressed by a multi-index.  Entries
  are real numbers (the floating-point rounding of the backend is not part of the
  model); only the entries at in-range multi-indices are meaningful.
\<close>

record tensor =
  shape :: "nat list"
  elem :: "nat list \<Rightarrow> real"

definition numel :: "tensor \<Rightarrow> nat" where
  "numel t = prod_list (shape t)"

text \<open>\<^verbatim>\<open>tn.ones(s)\<close> and multiplication or division of an array by a Python number.\<close>

definition ones_t :: "nat list \<Rightarrow> tensor" where
  "ones_t s = \<lparr>shape = s, elem = (\<lambda>idx. 1)\<rparr>"

definition scale_t :: "real \<Rightarrow> tensor \<Rightarrow> tensor" where
  "scale_t a t = \<lparr>shape = shape t, elem = (\<lambda>idx. elem t idx * a)\<rparr>"

definition div_t :: "tensor \<Rightarrow> real \<Rightarrow> tensor" where
  "div_t t a = \<lparr>shape = shape t, elem = (\<lambda>idx. elem t idx / a)\<rparr>"

definition neg_t :: "tensor \<Rightarrow> tensor" where
  "neg_t t = \<lparr>shape = shape t, elem = (\<lambda>idx. - elem t idx)\<rparr>"

text \<open>
  Broadcasting of two shapes: they are aligned at the last axis; two sizes are
  compatible when they are equal or one of them is 1.
\<close>

fun broadcast_rev :: "nat list \<Rightarrow> nat list \<Rightarrow> nat list option" where
  "broadcast_rev [] ys = Some ys"
| "broadcast_rev (x # xs) [] = Some (x # xs)"
| "broadcast_rev (x # xs) (y # ys) =
     (if x = y \<or> y = 1 then map_option ((#) x) (broadcast_rev xs ys)
      else if x = 1 then map_option ((#) y) (broadcast_rev xs ys)
      else None)"

definition broadcast_shapes :: "nat list \<Rightarrow> nat list \<Rightarrow> nat list option" where
  "broadcast_shapes a b = map_option rev (broadcast_rev (rev a) (rev b))"

text \<open>The position in an operand of shape \<open>s\<close> read for position \<open>idx\<close> of the broadcast result.\<close>

definition bc_index :: "nat list \<Rightarrow> nat list \<Rightarrow> nat list" where
  "bc_index s idx =
     map2 (\<lambda>n j. if n = 1 then 0 else j) s (drop (length idx - length s) idx)"

definition binop_t :: "(real \<Rightarrow> real \<Rightarrow> real) \<Rightarrow> tensor \<Rightarrow> tensor \<Rightarrow> error + tensor" where
  "binop_t f a b =
     (case broadcast_shapes (shape a) (shape b) of
        None \<Rightarrow> Inl RuntimeError
      | Some s \<Rightarrow> Inr \<lparr>shape = s,
                      elem = (\<lambda>idx. f (elem a (bc_index (shape a) idx))
                                       (elem b (bc_index (shape b) idx)))\<rparr>)"

definition add_t :: "tensor \<Rightarrow> tensor \<Rightarrow> error + tensor" where
  "add_t = binop_t (+)"

definition mul_t :: "tensor \<Rightarrow> tensor \<Rightarrow> error + tensor" where
  "mul_t = binop_t (*)"

text \<open>
  \<^verbatim>\<open>torch.nn.functional.pad(t, p)\<close> with zeros: \<open>p\<close> lists (left, right) amounts
  starting from the last axis.
\<close>

fun pad_pairs :: "nat list \<Rightarrow> (nat \<times> nat) list" where
  "pad_pairs (l # r # ps) = (l, r) # pad_pairs ps"
| "pad_pairs ps = []"

definition pad :: "tensor \<Rightarrow> nat list \<Rightarrow> error + tensor" where
  "pad t p =
     (let nd = length (shape t); k = length p div 2 in
      if odd (length p) \<or> nd < k then Inl RuntimeError
      else
        let lr = replicate (nd - k) (0, 0) @ rev (pad_pairs p) in
        Inr \<lparr>shape = map2 (\<lambda>n (l, r). l + n + r) (shape t) lr,
             elem = (\<lambda>idx.
               if list_all (\<lambda>(j, (n, (l, r))). l \<le> j \<and> j < l + n) (zip idx (zip (shape t) lr))
               then elem t (map2 (\<lambda>j (l, r). j - l) idx lr)
               else 0)\<rparr>)"

section \<open>The TT object and its constructor\<close>

text \<open>
  The attributes of a \<^verbatim>\<open>TT\<close> instance.  A tensor-case object built from cores has no
  attribute \<^verbatim>\<open>M\<close>; it is rendered as the empty list.  The attribute \<^verbatim>\<open>shape\<close> is a
  projection of \<open>M\<close> and \<open>N\<close> and is not stored.
\<close>

record TT =
  cores :: "tensor list"
  M :: "nat list"
  N :: "nat list"
  R :: "nat list"
  is_ttm :: bool

text \<open>\<^verbatim>\<open>TT(None)\<close>: the empty object.\<close>

definition TT_None :: TT where
  "TT_None = \<lparr>cores = [], M = [], N = [], R = [1, 1], is_ttm = False\<rparr>"

text \<open>
  The loop of \<^verbatim>\<open>TT.__init__\<close> over a list of cores.  The accumulator is
  \<open>(N, M, R)\<close>; \<open>R\<close> is never empty.  Reading \<^verbatim>\<open>s[0]\<close> of a 0-dimensional core raises
  IndexError.
\<close>

fun init_loop :: "tensor list \<Rightarrow> nat list \<times> nat list \<times> nat list
    \<Rightarrow> error + (nat list \<times> nat list \<times> nat list)" where
  "init_loop [] acc = Inr acc"
| "init_loop (c # cs) (Ns, Ms, Rs) =
     (let s = shape c in
      if s = [] then Inl IndexError
      else if s ! 0 \<noteq> last Rs then Inl RankMismatch
      else if length s = 3 then init_loop cs (Ns @ [s ! 1], Ms, Rs @ [s ! 2])
      else if length s = 4 then init_loop cs (Ns @ [s ! 2], Ms @ [s ! 1], Rs @ [s ! 3])
      else Inl InvalidArguments)"

text \<open>\<^verbatim>\<open>TT(source)\<close> for a list \<open>source\<close> of cores.\<close>

definition TT_init :: "tensor list \<Rightarrow> error + TT" where
  "TT_init source =
     (case source of
        [] \<Rightarrow> Inl IndexError
      | c0 # _ \<Rightarrow>
          (case shape c0 of
             [] \<Rightarrow> Inl IndexError
           | r0 # _ \<Rightarrow>
               (case init_loop source ([], [], [r0]) of
                  Inl e \<Rightarrow> Inl e
                | Inr (Ns, Ms, Rs) \<Rightarrow>
                    let d = length source in
                    if length Ns \<noteq> d \<or> length Rs \<noteq> d + 1 \<or> Rs ! 0 \<noteq> 1 \<or> last Rs \<noteq> 1
                       \<or> (length Ms \<noteq> 0 \<and> length Ms \<noteq> length Ns)
                    then Inl InvalidArguments
                    else Inr \<lparr>cores = source,
                              M = (if length Ms = length Ns then Ms else []),
                              N = Ns, R = Rs,
                              is_ttm = (length Ms = length Ns)\<rparr>)))"

text \<open>
  Attribute lookup on a \<^verbatim>\<open>TT\<close> instance: the instance attributes assigned by the
  constructors and the names defined in the class body.
\<close>

definition TT_instance_attributes :: "string list" where
  "TT_instance_attributes = [''cores'', ''M'', ''N'', ''R'', ''is_ttm'', ''shape'']"

definition TT_class_attributes :: "string list" where
  "TT_class_attributes =
     [''__init__'', ''cuda'', ''cpu'', ''is_cuda'', ''to'', ''full'', ''numpy'', ''__repr__'',
      ''__radd__'', ''__add__'', ''__rsub__'', ''__sub__'', ''__rmul__'', ''__mul__'',
      ''__matmul__'', ''fast_matvec'', ''apply_mask'', ''__truediv__'', ''__rtruediv__'',
      ''t'', ''norm'', ''sum'', ''to_ttm'', ''reduce_dims'', ''__getitem__'', ''__pow__'',
      ''__rpow__'', ''__neg__'', ''__pos__'', ''round'', ''to_qtt'', ''qtt_to_tens'', ''mprod'']"

definition TT_hasattr :: "string \<Rightarrow> bool" where
  "TT_hasattr name \<longleftrightarrow> name \<in> set (TT_instance_attributes @ TT_class_attributes)"

text \<open>
  \<^verbatim>\<open>is_cuda\<close>: \<^verbatim>\<open>all([c.is_cuda for c in self.core])\<close>.  The placement of a core is
  given by \<open>on_gpu\<close>; the list that is iterated is the value of the attribute
  \<^verbatim>\<open>core\<close>.
\<close>

definition is_cuda :: "(tensor \<Rightarrow> bool) \<Rightarrow> TT \<Rightarrow> error + bool" where
  "is_cuda on_gpu t =
     (if TT_hasattr ''core'' then Inr (list_all on_gpu (cores t)) else Inl AttributeError)"

section \<open>Operands of the arithmetic operators\<close>

text \<open>
  The right operand of an overloaded operator may be any Python value.  The cases
  distinguished by the code: Python numbers, strings, lists, \<^verbatim>\<open>None\<close>, dense arrays
  and \<^verbatim>\<open>TT\<close> instances.
\<close>

datatype operand =
    OInt int | OFloat real | OStr string | OList "real list" | ONone
  | OTensor tensor | OTT TT

text \<open>\<^verbatim>\<open>np.isscalar\<close> is true for Python numbers and for strings.\<close>

fun np_isscalar :: "operand \<Rightarrow> bool" where
  "np_isscalar (OInt _) = True"
| "np_isscalar (OFloat _) = True"
| "np_isscalar (OStr _) = True"
| "np_isscalar _ = False"

fun tn_is_tensor :: "operand \<Rightarrow> bool" where
  "tn_is_tensor (OTensor _) = True"
| "tn_is_tensor _ = False"

text \<open>
  The second argument of \<^verbatim>\<open>isinstance\<close>.  \<^verbatim>\<open>int\<close>, \<^verbatim>\<open>float\<close> and \<^verbatim>\<open>TT\<close> are classes;
  \<^verbatim>\<open>tn.tensor\<close> is the factory function of the backend, not a class, and
  \<^verbatim>\<open>isinstance\<close> raises TypeError when its second argument is not a class.
\<close>

datatype classinfo = Class_int | Class_float | Class_TT | Function_tn_tensor

fun isinstance :: "operand \<Rightarrow> classinfo \<Rightarrow> error + bool" where
  "isinstance v Function_tn_tensor = Inl TypeError"
| "isinstance (OInt _) Class_int = Inr True"
| "isinstance (OFloat _) Class_float = Inr True"
| "isinstance (OTT _) Class_TT = Inr True"
| "isinstance v c = Inr False"

text \<open>\<^verbatim>\<open>a or b\<close> with short-circuit evaluation, where either test may raise.\<close>

definition or_err :: "error + bool \<Rightarrow> error + bool \<Rightarrow> error + bool" where
  "or_err a b = (case a of Inl e \<Rightarrow> Inl e | Inr True \<Rightarrow> Inr True | Inr False \<Rightarrow> b)"

text \<open>
  \<^verbatim>\<open>tn.reshape(t, s)\<close>: the entries keep their row-major order.  \<open>ravel\<close> is the
  row-major position of a multi-index, \<open>unravel\<close> its inverse.
\<close>

fun ravel :: "nat list \<Rightarrow> nat list \<Rightarrow> nat" where
  "ravel (n # s) (j # idx) = j * prod_list s + ravel s idx"
| "ravel s idx = 0"

fun unravel :: "nat list \<Rightarrow> nat \<Rightarrow> nat list" where
  "unravel [] k = []"
| "unravel (n # s) k = (k div prod_list s) # unravel s (k mod prod_list s)"

definition reshape :: "tensor \<Rightarrow> nat list \<Rightarrow> error + tensor" where
  "reshape t s =
     (if prod_list s \<noteq> numel t then Inl RuntimeError
      else Inr \<lparr>shape = s, elem = (\<lambda>idx. elem t (unravel (shape t) (ravel s idx)))\<rparr>)"

text \<open>
  A subscript shared by both operands of \<^verbatim>\<open>tn.einsum\<close> and kept in the output: the
  two sizes must be equal or one of them 1 (then that operand is broadcast).
\<close>

definition shared_size :: "nat \<Rightarrow> nat \<Rightarrow> nat option" where
  "shared_size a b = (if a = b \<or> b = 1 then Some a else if a = 1 then Some b else None)"

definition bc :: "nat \<Rightarrow> nat \<Rightarrow> nat" where
  "bc n j = (if n = 1 then 0 else j)"

text \<open>\<^verbatim>\<open>tn.einsum('aib,min->amibn', x, y)\<close>\<close>

definition einsum_aib_min_amibn :: "tensor \<Rightarrow> tensor \<Rightarrow> error + tensor" where
  "einsum_aib_min_amibn x y =
     (case (shape x, shape y) of
        ([a, i, b], [m, i', n]) \<Rightarrow>
          (case shared_size i i' of
             None \<Rightarrow> Inl RuntimeError
           | Some k \<Rightarrow> Inr \<lparr>shape = [a, m, k, b, n],
                elem = (\<lambda>idx. elem x [idx ! 0, bc i (idx ! 2), idx ! 3]
                              * elem y [idx ! 1, bc i' (idx ! 2), idx ! 4])\<rparr>)
      | _ \<Rightarrow> Inl RuntimeError)"

text \<open>\<^verbatim>\<open>tn.einsum('aijb,mijn->amijbn', x, y)\<close>\<close>

definition einsum_aijb_mijn_amijbn :: "tensor \<Rightarrow> tensor \<Rightarrow> error + tensor" where
  "einsum_aijb_mijn_amijbn x y =
     (case (shape x, shape y) of
        ([a, i, j, b], [m, i', j', n]) \<Rightarrow>
          (case (shared_size i i', shared_size j j') of
             (Some k, Some l) \<Rightarrow> Inr \<lparr>shape = [a, m, k, l, b, n],
                elem = (\<lambda>idx. elem x [idx ! 0, bc i (idx ! 2), bc j (idx ! 3), idx ! 4]
                              * elem y [idx ! 1, bc i' (idx ! 2), bc j' (idx ! 3), idx ! 5])\<rparr>
           | _ \<Rightarrow> Inl RuntimeError)
      | _ \<Rightarrow> Inl RuntimeError)"

section \<open>Addition and subtraction\<close>

text \<open>\<^verbatim>\<open>0 if <at the edge> else Rs[j]\<close>: the list is read only away from the edge.\<close>

definition edge_rank :: "bool \<Rightarrow> nat list \<Rightarrow> nat \<Rightarrow> error + nat" where
  "edge_rank at_edge Rs j = (if at_edge then Inr 0 else py_get Rs j)"

text \<open>
  \<^verbatim>\<open>tnf.pad(c, pad1) + tnf.pad(oc, pad2)\<close> where \<open>pad1\<close> appends \<open>ro1\<close> zeros to the
  last axis and \<open>ro0\<close> to the first, and \<open>pad2\<close> prepends \<open>rs1\<close> zeros to the last axis
  and \<open>rs0\<close> to the first.  The second operand is evaluated after the first pad.
\<close>

definition pad_sum :: "bool \<Rightarrow> nat \<Rightarrow> nat \<Rightarrow> nat \<Rightarrow> nat \<Rightarrow> tensor \<Rightarrow> error + tensor
    \<Rightarrow> error + tensor" where
  "pad_sum ttm ro1 ro0 rs1 rs0 c oc =
     (let mid = (if ttm then [0, 0, 0, 0] else [0, 0]) in
      bind_err (pad c ([0, ro1] @ mid @ [0, ro0])) (\<lambda>p1.
      bind_err oc (\<lambda>c'.
      bind_err (pad c' ([rs1, 0] @ mid @ [rs0, 0])) (\<lambda>p2.
      add_t p1 p2))))"

text \<open>\<^verbatim>\<open>t * v\<close> for an array \<open>t\<close> and a Python value \<open>v\<close> that passed the scalar test.\<close>

fun times_operand :: "tensor \<Rightarrow> operand \<Rightarrow> error + tensor" where
  "times_operand t (OInt n) = Inr (scale_t (of_int n) t)"
| "times_operand t (OFloat r) = Inr (scale_t r t)"
| "times_operand t (OTensor u) = mul_t t u"
| "times_operand t v = Inl TypeError"

text \<open>Unary minus of a Python value that passed the scalar test.\<close>

fun neg_operand :: "operand \<Rightarrow> error + operand" where
  "neg_operand (OInt n) = Inr (OInt (- n))"
| "neg_operand (OFloat r) = Inr (OFloat (- r))"
| "neg_operand (OTensor u) = Inr (OTensor (neg_t u))"
| "neg_operand v = Inl TypeError"

text \<open>One iteration of the scalar branch; \<open>first\<close> is the value multiplied into core 0.\<close>

definition add_scalar_core :: "TT \<Rightarrow> error + operand \<Rightarrow> nat \<Rightarrow> error + tensor" where
  "add_scalar_core x first i =
     (let d = length (N x) in
      bind_err (edge_rank (i = d - 1) (R x) (i + 1)) (\<lambda>rs1.
      bind_err (edge_rank (i = 0) (R x) i) (\<lambda>rs0.
      bind_err (py_get (cores x) i) (\<lambda>c.
      bind_err (if i = 0 then first else Inr (OInt 1)) (\<lambda>v.
      bind_err (times_operand (ones_t (if is_ttm x then [1, 1, 1, 1] else [1, 1, 1])) v) (\<lambda>othr.
      pad_sum (is_ttm x) (if i = d - 1 then 0 else 1) (if i = 0 then 0 else 1) rs1 rs0
        c (Inr othr)))))))"

text \<open>One iteration of the TT branch; \<open>neg0\<close> negates core 0 of the second operand.\<close>

definition add_TT_core :: "bool \<Rightarrow> TT \<Rightarrow> TT \<Rightarrow> nat \<Rightarrow> error + tensor" where
  "add_TT_core neg0 x y i =
     (let d = length (N x) in
      bind_err (edge_rank (i = d - 1) (R y) (i + 1)) (\<lambda>ro1.
      bind_err (edge_rank (i = 0) (R y) i) (\<lambda>ro0.
      bind_err (edge_rank (i = d - 1) (R x) (i + 1)) (\<lambda>rs1.
      bind_err (edge_rank (i = 0) (R x) i) (\<lambda>rs0.
      bind_err (py_get (cores x) i) (\<lambda>c.
      pad_sum (is_ttm x) ro1 ro0 rs1 rs0 c
        (bind_err (py_get (cores y) i) (\<lambda>oc.
           Inr (if neg0 \<and> i = 0 then neg_t oc else oc)))))))))"

text \<open>
  \<^verbatim>\<open>TT.__add__\<close>.  The shape tests compare \<^verbatim>\<open>self.M\<close> and \<^verbatim>\<open>self.N\<close> with
  themselves, as the source does.  In the last branch the exception object is
  created but not raised, and \<^verbatim>\<open>return result\<close> reads an unassigned local.
\<close>

fun numel_is_1 :: "operand \<Rightarrow> bool" where
  "numel_is_1 (OTensor t) = (numel t = 1)"
| "numel_is_1 v = False"

definition TT_add :: "TT \<Rightarrow> operand \<Rightarrow> error + TT" where
  "TT_add x other =
     (if np_isscalar other \<or> (tn_is_tensor other \<and> numel_is_1 other) then
        bind_err (map_err (add_scalar_core x (Inr other)) [0..<length (N x)]) TT_init
      else
        (case other of
           OTT y \<Rightarrow>
             if is_ttm x \<and> is_ttm y then
               (if M x \<noteq> M x \<or> N x \<noteq> N x then Inl ShapeMismatch
                else bind_err (map_err (add_TT_core False x y) [0..<length (N x)]) TT_init)
             else if \<not> is_ttm x \<and> \<not> is_ttm y then
               (if N x \<noteq> N x then Inl ShapeMismatch
                else bind_err (map_err (add_TT_core False x y) [0..<length (N x)]) TT_init)
             else Inl IncompatibleTypes
         | _ \<Rightarrow> Inl UnboundLocalError))"

text \<open>
  \<^verbatim>\<open>other.shape == []\<close> compares a \<^verbatim>\<open>torch.Size\<close> (a tuple) with a list, which is
  never equal in Python.
\<close>

definition Size_eq_list :: "nat list \<Rightarrow> nat list \<Rightarrow> bool" where
  "Size_eq_list sz l = False"

fun shape_is_empty_list :: "operand \<Rightarrow> bool" where
  "shape_is_empty_list (OTensor t) = Size_eq_list (shape t) []"
| "shape_is_empty_list v = False"

text \<open>\<^verbatim>\<open>TT.__sub__\<close>\<close>

definition TT_sub :: "TT \<Rightarrow> operand \<Rightarrow> error + TT" where
  "TT_sub x other =
     (if np_isscalar other \<or> (tn_is_tensor other \<and> shape_is_empty_list other) then
        bind_err (map_err (add_scalar_core x (neg_operand other)) [0..<length (N x)]) TT_init
      else
        (case other of
           OTT y \<Rightarrow>
             if is_ttm x \<and> is_ttm y then
               (if M x \<noteq> M x \<or> N x \<noteq> N x then Inl ShapeMismatch
                else bind_err (map_err (add_TT_core True x y) [0..<length (N x)]) TT_init)
             else if \<not> is_ttm x \<and> \<not> is_ttm y then
               (if N x \<noteq> N x then Inl ShapeMismatch
                else bind_err (map_err (add_TT_core True x y) [0..<length (N x)]) TT_init)
             else Inl IncompatibleTypes
         | _ \<Rightarrow> Inl UnboundLocalError))"

section \<open>Elementwise multiplication\<close>

text \<open>One core of the Hadamard product of two tensor-case or two matrix-case objects.\<close>

definition mul_core :: "TT \<Rightarrow> TT \<Rightarrow> nat \<Rightarrow> error + tensor" where
  "mul_core x y i =
     bind_err (py_get (cores x) i) (\<lambda>c.
     bind_err (py_get (cores y) i) (\<lambda>oc.
     bind_err (einsum_aib_min_amibn c oc) (\<lambda>e.
     bind_err (py_get (R x) i) (\<lambda>r0.
     bind_err (py_get (R y) i) (\<lambda>q0.
     bind_err (py_get (N x) i) (\<lambda>n.
     bind_err (py_get (R x) (i + 1)) (\<lambda>r1.
     bind_err (py_get (R y) (i + 1)) (\<lambda>q1.
     reshape e [r0 * q0, n, r1 * q1]))))))))"

definition mul_core_ttm :: "TT \<Rightarrow> TT \<Rightarrow> nat \<Rightarrow> error + tensor" where
  "mul_core_ttm x y i =
     bind_err (py_get (cores x) i) (\<lambda>c.
     bind_err (py_get (cores y) i) (\<lambda>oc.
     bind_err (einsum_aijb_mijn_amijbn c oc) (\<lambda>e.
     bind_err (py_get (R x) i) (\<lambda>r0.
     bind_err (py_get (R y) i) (\<lambda>q0.
     bind_err (py_get (M x) i) (\<lambda>m.
     bind_err (py_get (N x) i) (\<lambda>n.
     bind_err (py_get (R x) (i + 1)) (\<lambda>r1.
     bind_err (py_get (R y) (i + 1)) (\<lambda>q1.
     reshape e [r0 * q0, m, n, r1 * q1])))))))))"

text \<open>
  The scalar branch: \<^verbatim>\<open>cores_new = [c+0 for c in self.cores]\<close> makes fresh copies,
  and \<^verbatim>\<open>cores_new[0] *= other\<close> scales the first of them.
\<close>

definition mul_scalar :: "TT \<Rightarrow> real \<Rightarrow> error + TT" where
  "mul_scalar x a =
     (case cores x of
        [] \<Rightarrow> Inl IndexError
      | c # cs \<Rightarrow> TT_init (scale_t a c # cs))"

fun scalar_value :: "operand \<Rightarrow> real" where
  "scalar_value (OInt n) = of_int n"
| "scalar_value (OFloat r) = r"
| "scalar_value v = 0"

text \<open>\<^verbatim>\<open>TT.__mul__\<close>\<close>

definition TT_mul :: "TT \<Rightarrow> operand \<Rightarrow> error + TT" where
  "TT_mul x other =
     (case other of
        OTT y \<Rightarrow>
          if is_ttm x \<and> is_ttm y then
            (if N x \<noteq> N y \<or> M x \<noteq> M y then Inl ShapeMismatch
             else bind_err (map_err (mul_core_ttm x y) [0..<length (cores x)]) TT_init)
          else if \<not> is_ttm x \<and> \<not> is_ttm y then
            (if N x \<noteq> N y then Inl ShapeMismatch
             else bind_err (map_err (mul_core x y) [0..<length (cores x)]) TT_init)
          else Inl IncompatibleTypes
      | _ \<Rightarrow>
          bind_err (or_err (isinstance other Class_int)
                   (or_err (isinstance other Class_float)
                           (isinstance other Function_tn_tensor))) (\<lambda>b.
          if b then mul_scalar x (scalar_value other) else Inl InvalidArguments))"

section \<open>Indexing and contraction of dense arrays\<close>

text \<open>
  Basic indexing of an array: every entry of the index tuple is an integer (negative
  values count from the end) or a slice \<^verbatim>\<open>start:stop:step\<close> with optional parts.
\<close>

datatype index = Idx int | Slc "int option" "int option" "int option"

abbreviation full_slice :: index where
  "full_slice \<equiv> Slc None None None"

text \<open>
  The first position, the number of positions and the step selected by a slice on an
  axis of size \<open>n\<close>, following \<^verbatim>\<open>slice.indices\<close>; the backend rejects a step that is not
  positive.
\<close>

definition clamp_bound :: "nat \<Rightarrow> int \<Rightarrow> nat" where
  "clamp_bound n v = (let w = (if v < 0 then v + int n else v) in
                      if w < 0 then 0 else if int n < w then n else nat w)"

definition slice_indices :: "nat \<Rightarrow> int option \<Rightarrow> int option \<Rightarrow> int option
    \<Rightarrow> error + (nat \<times> nat \<times> nat)" where
  "slice_indices n a b c =
     (let step = (case c of None \<Rightarrow> 1 | Some v \<Rightarrow> v) in
      if step \<le> 0 then Inl ValueError
      else
        let start = (case a of None \<Rightarrow> 0 | Some v \<Rightarrow> clamp_bound n v);
            stop = (case b of None \<Rightarrow> n | Some v \<Rightarrow> clamp_bound n v)
        in Inr (start, (stop - start + nat step - 1) div nat step, nat step))"

text \<open>
  The shape of \<^verbatim>\<open>t[ixs]\<close> and, for a position of the result, the position of \<open>t\<close> it
  reads.  Axes beyond the index tuple are kept whole.
\<close>

fun index_axes :: "nat list \<Rightarrow> index list \<Rightarrow> error + (nat list \<times> (nat list \<Rightarrow> nat list))" where
  "index_axes s [] = Inr (s, (\<lambda>idx. idx))"
| "index_axes [] (ix # ixs) = Inl IndexError"
| "index_axes (n # s) (Idx j # ixs) =
     (let j' = (if j < 0 then j + int n else j) in
      if j' < 0 \<or> int n \<le> j' then Inl IndexError
      else
        (case index_axes s ixs of
           Inl e \<Rightarrow> Inl e
         | Inr (s', f) \<Rightarrow> Inr (s', (\<lambda>idx. nat j' # f idx))))"
| "index_axes (n # s) (Slc a b c # ixs) =
     (case slice_indices n a b c of
        Inl e \<Rightarrow> Inl e
      | Inr (start, len, step) \<Rightarrow>
          (case index_axes s ixs of
             Inl e \<Rightarrow> Inl e
           | Inr (s', f) \<Rightarrow>
               Inr (len # s', (\<lambda>idx. (start + hd idx * step) # f (tl idx)))))"

definition index_t :: "tensor \<Rightarrow> index list \<Rightarrow> error + tensor" where
  "index_t t ixs =
     (case index_axes (shape t) ixs of
        Inl e \<Rightarrow> Inl e
      | Inr (s', f) \<Rightarrow> Inr \<lparr>shape = s', elem = (\<lambda>idx. elem t (f idx))\<rparr>)"

text \<open>
  \<^verbatim>\<open>tn.einsum('...i,i<rest>->...<rest>', t, c)\<close> for a second operand with \<open>n\<close> axes:
  the last axis of \<open>t\<close> is summed against the first axis of \<open>c\<close>.
\<close>

definition einsum_chain :: "nat \<Rightarrow> tensor \<Rightarrow> tensor \<Rightarrow> error + tensor" where
  "einsum_chain n t c =
     (if shape t = [] \<or> length (shape c) \<noteq> n \<or> n = 0 then Inl RuntimeError
      else
        (case shared_size (last (shape t)) (hd (shape c)) of
           None \<Rightarrow> Inl RuntimeError
         | Some k \<Rightarrow>
             Inr \<lparr>shape = butlast (shape t) @ tl (shape c),
                  elem = (\<lambda>idx.
                    let m = length (shape t) - 1 in
                    \<Sum>i<k. elem t (take m idx @ [bc (last (shape t)) i])
                          * elem c (bc (hd (shape c)) i # drop m idx))\<rparr>))"

text \<open>\<^verbatim>\<open>tn.squeeze(t)\<close>: all axes of size 1 are removed.\<close>

fun unsqueeze_idx :: "nat list \<Rightarrow> nat list \<Rightarrow> nat list" where
  "unsqueeze_idx [] idx = []"
| "unsqueeze_idx (n # s) idx =
     (if n = 1 then 0 # unsqueeze_idx s idx
      else (case idx of [] \<Rightarrow> [] | j # idx' \<Rightarrow> j # unsqueeze_idx s idx'))"

definition squeeze :: "tensor \<Rightarrow> tensor" where
  "squeeze t = \<lparr>shape = filter (\<lambda>n. n \<noteq> 1) (shape t),
                elem = (\<lambda>idx. elem t (unsqueeze_idx (shape t) idx))\<rparr>"

text \<open>\<^verbatim>\<open>tn.eye(n)\<close> and \<^verbatim>\<open>tn.unsqueeze(t, k)\<close>\<close>

definition eye_t :: "nat \<Rightarrow> tensor" where
  "eye_t n = \<lparr>shape = [n, n], elem = (\<lambda>idx. if idx ! 0 = idx ! 1 then 1 else 0)\<rparr>"

definition unsqueeze :: "tensor \<Rightarrow> nat \<Rightarrow> error + tensor" where
  "unsqueeze t k =
     (if length (shape t) < k then Inl IndexError
      else Inr \<lparr>shape = take k (shape t) @ 1 # drop k (shape t),
                elem = (\<lambda>idx. elem t (take k idx @ drop (Suc k) idx))\<rparr>)"

section \<open>Contraction\<close>

text \<open>\<^verbatim>\<open>tn.einsum('ijkl,mkp->imjlp', a, x)\<close>\<close>

definition einsum_ijkl_mkp_imjlp :: "tensor \<Rightarrow> tensor \<Rightarrow> error + tensor" where
  "einsum_ijkl_mkp_imjlp a x =
     (case (shape a, shape x) of
        ([i, j, k, l], [m, k', p]) \<Rightarrow>
          (case shared_size k k' of
             None \<Rightarrow> Inl RuntimeError
           | Some n \<Rightarrow> Inr \<lparr>shape = [i, m, j, l, p],
                elem = (\<lambda>idx. \<Sum>s<n. elem a [idx ! 0, idx ! 2, bc k s, idx ! 3]
                                     * elem x [idx ! 1, bc k' s, idx ! 4])\<rparr>)
      | _ \<Rightarrow> Inl RuntimeError)"

text \<open>\<^verbatim>\<open>tn.einsum('ijkl,mknp->imjnlp', a, b)\<close>\<close>

definition einsum_ijkl_mknp_imjnlp :: "tensor \<Rightarrow> tensor \<Rightarrow> error + tensor" where
  "einsum_ijkl_mknp_imjnlp a b =
     (case (shape a, shape b) of
        ([i, j, k, l], [m, k', n, p]) \<Rightarrow>
          (case shared_size k k' of
             None \<Rightarrow> Inl RuntimeError
           | Some q \<Rightarrow> Inr \<lparr>shape = [i, m, j, n, l, p],
                elem = (\<lambda>idx. \<Sum>s<q. elem a [idx ! 0, idx ! 2, bc k s, idx ! 4]
                                     * elem b [idx ! 1, bc k' s, idx ! 3, idx ! 5])\<rparr>)
      | _ \<Rightarrow> Inl RuntimeError)"

text \<open>\<^verbatim>\<open>tn.einsum('mkp,ikjl->imjlp', x, a)\<close>\<close>

definition einsum_mkp_ikjl_imjlp :: "tensor \<Rightarrow> tensor \<Rightarrow> error + tensor" where
  "einsum_mkp_ikjl_imjlp x a =
     (case (shape x, shape a) of
        ([m, k, p], [i, k', j, l]) \<Rightarrow>
          (case shared_size k k' of
             None \<Rightarrow> Inl RuntimeError
           | Some n \<Rightarrow> Inr \<lparr>shape = [i, m, j, l, p],
                elem = (\<lambda>idx. \<Sum>s<n. elem x [idx ! 1, bc k s, idx ! 4]
                                     * elem a [idx ! 0, bc k' s, idx ! 2, idx ! 3])\<rparr>)
      | _ \<Rightarrow> Inl RuntimeError)"

text \<open>The result of an operator that returns either a dense array or a TT object.\<close>

datatype result = Dense tensor | Obj TT

text \<open>One core of matrix times vector, matrix times matrix and vector times matrix.\<close>

definition matvec_core :: "TT \<Rightarrow> TT \<Rightarrow> nat \<Rightarrow> error + tensor" where
  "matvec_core x y i =
     bind_err (py_get (cores x) i) (\<lambda>a.
     bind_err (py_get (cores y) i) (\<lambda>c.
     bind_err (einsum_ijkl_mkp_imjlp a c) (\<lambda>e.
     bind_err (py_get (shape a) 0) (\<lambda>a0.
     bind_err (py_get (shape c) 0) (\<lambda>c0.
     bind_err (py_get (shape a) 1) (\<lambda>a1.
     bind_err (py_get (shape a) 3) (\<lambda>a3.
     bind_err (py_get (shape c) 2) (\<lambda>c2.
     reshape e [a0 * c0, a1, a3 * c2]))))))))"

definition matmat_core :: "TT \<Rightarrow> TT \<Rightarrow> nat \<Rightarrow> error + tensor" where
  "matmat_core x y i =
     bind_err (py_get (cores x) i) (\<lambda>a.
     bind_err (py_get (cores y) i) (\<lambda>b.
     bind_err (einsum_ijkl_mknp_imjnlp a b) (\<lambda>e.
     bind_err (py_get (shape a) 0) (\<lambda>a0.
     bind_err (py_get (shape b) 0) (\<lambda>b0.
     bind_err (py_get (shape a) 1) (\<lambda>a1.
     bind_err (py_get (shape b) 2) (\<lambda>b2.
     bind_err (py_get (shape a) 3) (\<lambda>a3.
     bind_err (py_get (shape b) 3) (\<lambda>b3.
     reshape e [a0 * b0, a1, b2, a3 * b3])))))))))"

definition vecmat_core :: "TT \<Rightarrow> TT \<Rightarrow> nat \<Rightarrow> error + tensor" where
  "vecmat_core x y i =
     bind_err (py_get (cores x) i) (\<lambda>c.
     bind_err (py_get (cores y) i) (\<lambda>a.
     bind_err (einsum_mkp_ikjl_imjlp c a) (\<lambda>e.
     bind_err (py_get (shape c) 0) (\<lambda>c0.
     bind_err (py_get (shape a) 0) (\<lambda>a0.
     bind_err (py_get (shape a) 2) (\<lambda>a2.
     bind_err (py_get (shape c) 2) (\<lambda>c2.
     bind_err (py_get (shape a) 3) (\<lambda>a3.
     reshape e [c0 * a0, a2, c2 * a3]))))))))"

text \<open>
  \<^verbatim>\<open>TT.__matmul__\<close>.  The product of a TT-matrix with a dense array is computed by
  \<^verbatim>\<open>dense_matvec\<close> of \<^verbatim>\<open>torchtt.aux_ops\<close>, a parameter here.  Reading \<^verbatim>\<open>other.is_ttm\<close>
  of an operand that is not a TT object raises AttributeError.
\<close>

definition TT_matmul :: "(tensor list \<Rightarrow> tensor \<Rightarrow> error + tensor) \<Rightarrow> TT \<Rightarrow> operand
    \<Rightarrow> error + result" where
  "TT_matmul dense_matvec x other =
     (if is_ttm x then
        (case other of
           OTensor t \<Rightarrow>
             if N x \<noteq> drop (length (shape t) - length (N x)) (shape t) then Inl ShapeMismatch
             else map_sum id Dense (dense_matvec (cores x) t)
         | OTT y \<Rightarrow>
             if \<not> is_ttm y then
               (if N x \<noteq> N y then Inl ShapeMismatch
                else map_sum id Obj
                  (bind_err (map_err (matvec_core x y) [0..<length (cores x)]) TT_init))
             else
               (if N x \<noteq> M y then Inl ShapeMismatch
                else map_sum id Obj
                  (bind_err (map_err (matmat_core x y) [0..<length (cores x)]) TT_init))
         | _ \<Rightarrow> Inl AttributeError)
      else
        (case other of
           OTT y \<Rightarrow>
             if is_ttm y then
               (if N x \<noteq> M y then Inl ShapeMismatch
                else map_sum id Obj
                  (bind_err (map_err (vecmat_core x y) [0..<length (cores x)]) TT_init))
             else Inl InvalidArguments
         | _ \<Rightarrow> Inl AttributeError))"

section \<open>Identity operator and Kronecker product\<close>

text \<open>\<^verbatim>\<open>eye(shape)\<close>: one core \<^verbatim>\<open>unsqueeze(unsqueeze(tn.eye(s), 0), 3)\<close> per mode.\<close>

definition eye :: "nat list \<Rightarrow> error + TT" where
  "eye sh =
     bind_err (map_err (\<lambda>s. bind_err (unsqueeze (eye_t s) 0) (\<lambda>u. unsqueeze u 3)) sh) TT_init"

text \<open>\<^verbatim>\<open>kron(first, second)\<close>; \<^verbatim>\<open>TT.__pow__\<close> calls it with \<^verbatim>\<open>self\<close> as first argument.\<close>

fun kron :: "operand \<Rightarrow> operand \<Rightarrow> error + TT" where
  "kron ONone (OTT y) = TT_init (cores y)"
| "kron (OTT x) ONone = TT_init (cores x)"
| "kron (OTT x) (OTT y) =
     (if is_ttm x \<noteq> is_ttm y then Inl IncompatibleTypes
      else TT_init (cores x @ cores y))"
| "kron a b = Inl InvalidArguments"

definition TT_pow :: "TT \<Rightarrow> operand \<Rightarrow> error + TT" where
  "TT_pow x other = kron (OTT x) other"

section \<open>Mode reduction and slicing\<close>

text \<open>An einsum whose first operand has exactly \<open>m\<close> axes and whose second has \<open>n\<close>.\<close>

definition einsum_exact :: "nat \<Rightarrow> nat \<Rightarrow> tensor \<Rightarrow> tensor \<Rightarrow> error + tensor" where
  "einsum_exact m n t c =
     (if length (shape t) \<noteq> m then Inl RuntimeError else einsum_chain n t c)"

text \<open>
  One iteration of the loop of \<^verbatim>\<open>reduce_dims\<close> on the pair \<^verbatim>\<open>(self.cores, cores_new)\<close>;
  \<open>d\<close> is \<^verbatim>\<open>len(self.N)\<close>.  In the matrix case the tested modes are axes 1 and 2 and
  the trailing rank is axis 3.
\<close>

definition fold_right :: "bool \<Rightarrow> tensor \<Rightarrow> tensor list \<Rightarrow> nat \<Rightarrow> error + tensor list" where
  "fold_right ttm c cs i =
     bind_err (index_t c (if ttm then [full_slice, Idx 0, Idx 0, full_slice]
                          else [full_slice, Idx 0, full_slice])) (\<lambda>m.
     bind_err (py_get cs (i + 1)) (\<lambda>nx.
     bind_err (einsum_exact 2 (if ttm then 4 else 3) m nx) (\<lambda>e.
     Inr (cs[i + 1 := e]))))"

definition fold_left :: "bool \<Rightarrow> tensor \<Rightarrow> tensor list \<Rightarrow> error + tensor list" where
  "fold_left ttm c cn =
     bind_err (index_t c (if ttm then [full_slice, Idx 0, Idx 0, full_slice]
                          else [full_slice, Idx 0, full_slice])) (\<lambda>m.
     bind_err (einsum_exact (if ttm then 4 else 3) 2 (last cn) m) (\<lambda>e.
     Inr (butlast cn @ [e])))"

definition mode_is_1 :: "bool \<Rightarrow> tensor \<Rightarrow> error + bool" where
  "mode_is_1 ttm c =
     bind_err (py_get (shape c) 1) (\<lambda>n1.
     if n1 \<noteq> 1 then Inr False
     else if ttm then bind_err (py_get (shape c) 2) (\<lambda>n2. Inr (n2 = 1))
     else Inr True)"

definition reduce_step :: "bool \<Rightarrow> nat \<Rightarrow> tensor list \<times> tensor list \<Rightarrow> nat
    \<Rightarrow> error + (tensor list \<times> tensor list)" where
  "reduce_step ttm d st i =
     (let cs = fst st; cn = snd st in
      bind_err (py_get cs i) (\<lambda>c.
      bind_err (mode_is_1 ttm c) (\<lambda>one.
      if one then
        bind_err (py_get (shape c) 0) (\<lambda>s0.
        bind_err (py_get (shape c) (if ttm then 3 else 2)) (\<lambda>s2.
        if s0 > s2 \<or> i = d - 1 then
          (if length cn > 0 then map_sum id (\<lambda>cn'. (cs, cn')) (fold_left ttm c cn)
           else if i \<noteq> d - 1 then map_sum id (\<lambda>cs'. (cs', cn)) (fold_right ttm c cs i)
           else Inr (cs, cn @ [c]))
        else map_sum id (\<lambda>cs'. (cs', cn)) (fold_right ttm c cs i)))
      else Inr (cs, cn @ [c]))))"

fun fold_err :: "('s \<Rightarrow> 'a \<Rightarrow> error + 's) \<Rightarrow> 's \<Rightarrow> 'a list \<Rightarrow> error + 's" where
  "fold_err f s [] = Inr s"
| "fold_err f s (x # xs) = (case f s x of Inl e \<Rightarrow> Inl e | Inr s' \<Rightarrow> fold_err f s' xs)"

text \<open>
  \<^verbatim>\<open>TT.reduce_dims\<close>; the updated object is returned.  In the matrix case the source
  appends axis 1 of each core to \<open>N\<close> and axis 2 to \<open>M\<close>.
\<close>

definition reduce_dims :: "TT \<Rightarrow> error + TT" where
  "reduce_dims t =
     bind_err (fold_err (reduce_step (is_ttm t) (length (N t))) (cores t, [])
                 [0..<length (N t)]) (\<lambda>st.
     let cn = snd st in
     bind_err (map_err (\<lambda>c. py_get (shape c) 1) cn) (\<lambda>ns.
     if is_ttm t then
       bind_err (map_err (\<lambda>c. py_get (shape c) 2) cn) (\<lambda>ms.
       bind_err (map_err (\<lambda>c. py_get (shape c) 3) cn) (\<lambda>rs.
       Inr (t\<lparr>cores := cn, N := ns, M := ms, R := 1 # rs\<rparr>)))
     else
       bind_err (map_err (\<lambda>c. py_get (shape c) 2) cn) (\<lambda>rs.
       Inr (t\<lparr>cores := cn, N := ns, R := 1 # rs\<rparr>))))"

text \<open>
  The argument of \<^verbatim>\<open>TT.__getitem__\<close>: a tuple whose entries are integers, slices or
  \<^verbatim>\<open>Ellipsis\<close>; a single integer; a single slice; \<^verbatim>\<open>Ellipsis\<close>.
\<close>

datatype item = Item index | Ellipsis_item

datatype tt_index = ITuple "item list" | IInt int | ISlice "int option" "int option" "int option"
  | IEllipsis

fun is_slice :: "index \<Rightarrow> bool" where
  "is_slice (Slc a b c) = True"
| "is_slice (Idx j) = False"

fun the_index :: "item \<Rightarrow> index" where
  "the_index (Item ix) = ix"
| "the_index Ellipsis_item = full_slice"

text \<open>\<^verbatim>\<open>tn.reshape(t, [a, -1, b])\<close>: the middle size is inferred.\<close>

definition reshape_infer :: "tensor \<Rightarrow> nat \<Rightarrow> nat \<Rightarrow> error + tensor" where
  "reshape_infer t a b =
     (if a * b = 0 \<or> numel t mod (a * b) \<noteq> 0 then Inl RuntimeError
      else reshape t [a, numel t div (a * b), b])"

definition slice_core :: "TT \<Rightarrow> index list \<Rightarrow> nat \<Rightarrow> error + tensor" where
  "slice_core x ixs i =
     bind_err (py_get ixs i) (\<lambda>ix.
     bind_err (py_get (cores x) i) (\<lambda>c.
     if is_slice ix then index_t c [full_slice, ix, full_slice]
     else
       bind_err (index_t c [full_slice, ix, full_slice]) (\<lambda>s.
       bind_err (py_get (R x) i) (\<lambda>r0.
       bind_err (py_get (R x) (i + 1)) (\<lambda>r1.
       reshape_infer s r0 r1)))))"

definition slice_core_ttm :: "TT \<Rightarrow> index list \<Rightarrow> nat \<Rightarrow> error + tensor" where
  "slice_core_ttm x ixs i =
     bind_err (py_get ixs i) (\<lambda>ix.
     bind_err (py_get (cores x) i) (\<lambda>c.
     bind_err (py_get ixs (i + length (N x))) (\<lambda>ix2.
     if is_slice ix then index_t c [full_slice, ix, ix2, full_slice]
     else
       bind_err (index_t c [full_slice, ix, ix2, full_slice]) (\<lambda>s.
       bind_err (py_get (R x) i) (\<lambda>r0.
       bind_err (py_get (R x) (i + 1)) (\<lambda>r1.
       reshape s [r0, 1, 1, r1]))))))"

text \<open>
  \<^verbatim>\<open>TT.__getitem__\<close>.  An index that is neither a tuple nor an integer reaches the
  test \<^verbatim>\<open>isinstance(index, Ellipsis)\<close>, whose second argument is not a class, so
  TypeError is raised there and the branch for a single slice is never entered.
\<close>

definition TT_getitem :: "TT \<Rightarrow> tt_index \<Rightarrow> error + result" where
  "TT_getitem x index =
     (case index of
        ITuple items \<Rightarrow>
          if Ellipsis_item \<in> set items then Inl NotImplementedError
          else
            (let ixs = map the_index items in
             bind_err
               (if is_ttm x then
                  (if length items \<noteq> length (N x) * 2 then Inl InvalidArguments
                   else map_err (slice_core_ttm x ixs) [0..<length (cores x)])
                else
                  (if length items \<noteq> length (N x) then Inl InvalidArguments
                   else map_err (slice_core x ixs) [0..<length (cores x)])) (\<lambda>cores_new.
             bind_err (TT_init cores_new) (\<lambda>sliced0.
             bind_err (reduce_dims sliced0) (\<lambda>sliced.
             if (\<not> is_ttm sliced \<and> N sliced = [1])
                \<or> (is_ttm sliced \<and> N sliced = [1] \<and> M sliced = [1])
             then bind_err (py_get (cores sliced) 0) (\<lambda>c. Inr (Dense (squeeze c)))
             else Inr (Obj sliced)))))
      | IInt j \<Rightarrow>
          if length (N x) = 1 then
            bind_err (py_get (cores x) 0) (\<lambda>c.
            map_sum id Dense (index_t c [Idx 0, Idx j, Idx 0]))
          else Inl InvalidArguments
      | _ \<Rightarrow> Inl TypeError)"

section \<open>Division by a scalar: cores as shared objects\<close>

text \<open>
  \<^verbatim>\<open>TT.__truediv__\<close> updates a core in place, so here the cores are objects in a store
  and a \<^verbatim>\<open>TT\<close> instance holds their addresses.  A Python list of cores is a list of
  addresses: \<^verbatim>\<open>list.copy()\<close> copies the addresses, not the arrays.
\<close>

type_synonym addr = nat

record store =
  cells :: "addr \<Rightarrow> tensor"
  next_free :: addr

record TT_obj =
  core_refs :: "addr list"
  obj_M :: "nat list"
  obj_N :: "nat list"
  obj_R :: "nat list"
  obj_is_ttm :: bool

text \<open>The object read out of the store.\<close>

definition deref :: "store \<Rightarrow> TT_obj \<Rightarrow> TT" where
  "deref s x = \<lparr>cores = map (cells s) (core_refs x), M = obj_M x, N = obj_N x, R = obj_R x,
                is_ttm = obj_is_ttm x\<rparr>"

text \<open>\<^verbatim>\<open>TT(cores)\<close> for a list of core objects: the new instance refers to the same objects.\<close>

definition TT_init_obj :: "store \<Rightarrow> addr list \<Rightarrow> error + TT_obj" where
  "TT_init_obj s refs =
     (case TT_init (map (cells s) refs) of
        Inl e \<Rightarrow> Inl e
      | Inr t \<Rightarrow> Inr \<lparr>core_refs = refs, obj_M = M t, obj_N = N t, obj_R = R t,
                      obj_is_ttm = is_ttm t\<rparr>)"

text \<open>Freshly created arrays get fresh addresses.\<close>

fun alloc_all :: "tensor list \<Rightarrow> store \<Rightarrow> addr list \<times> store" where
  "alloc_all [] s = ([], s)"
| "alloc_all (t # ts) s =
     (let a = next_free s;
          (as, s') = alloc_all ts (s\<lparr>cells := (cells s)(a := t), next_free := Suc a\<rparr>)
      in (a # as, s'))"

datatype divisor = DInt int | DFloat real | DTensor tensor | DTT TT_obj | DOther

text \<open>
  \<^verbatim>\<open>t /= v\<close> on an array object: the quotient is written into the object itself.  With
  an array divisor the broadcast result must have the shape of the target.  (For a
  zero divisor the backend produces infinities or NaN without raising; the model's
  entries are reals, so only nonzero divisors are meaningful.)
\<close>

fun idiv :: "tensor \<Rightarrow> divisor \<Rightarrow> error + tensor" where
  "idiv t (DInt n) = Inr (div_t t (of_int n))"
| "idiv t (DFloat r) = Inr (div_t t r)"
| "idiv t (DTensor u) =
     (case binop_t (/) t u of
        Inl e \<Rightarrow> Inl e
      | Inr q \<Rightarrow> if shape q = shape t then Inr q else Inl RuntimeError)"
| "idiv t v = Inl TypeError"

text \<open>
  \<^verbatim>\<open>TT.__truediv__\<close>.  The AMEN solver of \<^verbatim>\<open>torchtt.division\<close> is a parameter: it
  returns the cores of the quotient as new arrays.
\<close>

definition TT_truediv :: "(TT \<Rightarrow> TT \<Rightarrow> error + tensor list) \<Rightarrow> store \<Rightarrow> TT_obj \<Rightarrow> divisor
    \<Rightarrow> error + (TT_obj \<times> store)" where
  "TT_truediv amen_divide s x other =
     (case other of
        DTT y \<Rightarrow>
          if obj_is_ttm x \<noteq> obj_is_ttm y then Inl IncompatibleTypes
          else if obj_N x \<noteq> obj_N y \<or> (obj_is_ttm x \<and> obj_M x \<noteq> obj_M y) then Inl ShapeMismatch
          else
            (case amen_divide (deref s y) (deref s x) of
               Inl e \<Rightarrow> Inl e
             | Inr cs \<Rightarrow>
                 (let (refs, s') = alloc_all cs s in
                  case TT_init_obj s' refs of Inl e \<Rightarrow> Inl e | Inr r \<Rightarrow> Inr (r, s')))
      | DOther \<Rightarrow> Inl InvalidArguments
      | _ \<Rightarrow>
          (let cores_new = core_refs x in
           case cores_new of
             [] \<Rightarrow> Inl IndexError
           | a # _ \<Rightarrow>
               (case idiv (cells s a) other of
                  Inl e \<Rightarrow> Inl e
                | Inr q \<Rightarrow>
                    (let s' = s\<lparr>cells := (cells s)(a := q)\<rparr> in
                     case TT_init_obj s' cores_new of
                       Inl e \<Rightarrow> Inl e
                     | Inr r \<Rightarrow> Inr (r, s')))))"

section \<open>Concrete objects used in the evaluations below\<close>

definition core_1x1x1 :: tensor where
  "core_1x1x1 = \<lparr>shape = [1, 1, 1], elem = (\<lambda>idx. 2)\<rparr>"

definition core_1x3x1 :: tensor where
  "core_1x3x1 = \<lparr>shape = [1, 3, 1], elem = (\<lambda>idx. real (idx ! 1))\<rparr>"

definition tt_n1 :: TT where
  "tt_n1 = \<lparr>cores = [core_1x1x1], M = [], N = [1], R = [1, 1], is_ttm = False\<rparr>"

definition tt_n3 :: TT where
  "tt_n3 = \<lparr>cores = [core_1x3x1], M = [], N = [3], R = [1, 1], is_ttm = False\<rparr>"

definition store0 :: store where
  "store0 = \<lparr>cells = (\<lambda>a. core_1x3x1), next_free = 1\<rparr>"

definition obj0 :: TT_obj where
  "obj0 = \<lparr>core_refs = [0], obj_M = [], obj_N = [3], obj_R = [1, 1], obj_is_ttm = False\<rparr>"

section \<open>Vocabulary of the constructor's checks\<close>

text \<open>
  A list of cores passes the loop of the constructor, entered with running rank \<open>r\<close>:
  every core has a leading dimension equal to the trailing dimension of the core before
  it (\<open>r\<close> for the first), and is 3- or 4-dimensional.
\<close>

fun passes :: "nat \<Rightarrow> tensor list \<Rightarrow> bool" where
  "passes r [] = True"
| "passes r (c # cs) =
     (shape c \<noteq> [] \<and> shape c ! 0 = r \<and> (length (shape c) = 3 \<or> length (shape c) = 4)
      \<and> passes (last (shape c)) cs)"

text \<open>The mode size that the loop appends to \<open>N\<close> for a 3- or 4-dimensional core.\<close>

definition mode_size :: "tensor \<Rightarrow> nat" where
  "mode_size c = (if length (shape c) = 3 then shape c ! 1 else shape c ! 2)"

definition is_4d :: "tensor \<Rightarrow> bool" where
  "is_4d c = (length (shape c) = 4)"

text \<open>The list holds both 3-dimensional and 4-dimensional cores.\<close>

definition mixed :: "tensor list \<Rightarrow> bool" where
  "mixed cs = ((\<exists>c \<in> set cs. length (shape c) = 3) \<and> (\<exists>c \<in> set cs. length (shape c) = 4))"

definition core_1x2 :: tensor where
  "core_1x2 = \<lparr>shape = [1, 2], elem = (\<lambda>idx. 1)\<rparr>"

definition core_9x3x1 :: tensor where
  "core_9x3x1 = \<lparr>shape = [9, 3, 1], elem = (\<lambda>idx. 1)\<rparr>"

section \<open>Structural invariants\<close>

text \<open>
  The invariants of the data model: \<open>R\<close> has one more entry than \<open>N\<close>, starts and ends
  with 1, there is one core per mode, and core \<open>i\<close> has leading dimension \<open>R ! i\<close> and
  trailing dimension \<open>R ! (i + 1)\<close>.
\<close>

definition tt_invariant :: "TT \<Rightarrow> bool" where
  "tt_invariant t \<longleftrightarrow>
     length (R t) = length (N t) + 1 \<and> R t ! 0 = 1 \<and> last (R t) = 1
     \<and> length (cores t) = length (N t)
     \<and> (\<forall>i < length (cores t).
          shape (cores t ! i) \<noteq> [] \<and> shape (cores t ! i) ! 0 = R t ! i
          \<and> last (shape (cores t ! i)) = R t ! (i + 1))"

text \<open>The cores still to be visited, behind the cores already kept, form a valid train.\<close>

definition train :: "nat \<Rightarrow> tensor list \<Rightarrow> bool" where
  "train nd L \<longleftrightarrow> passes 1 L \<and> L \<noteq> [] \<and> last (shape (last L)) = 1
                 \<and> (\<forall>c \<in> set L. length (shape c) = nd)"

definition core_1x3x3x1 :: tensor where
  "core_1x3x3x1 = \<lparr>shape = [1, 3, 3, 1], elem = (\<lambda>idx. if idx ! 1 = idx ! 2 then 1 else 0)\<rparr>"

definition eye3 :: TT where
  "eye3 = \<lparr>cores = [core_1x3x3x1], M = [3], N = [3], R = [1, 1], is_ttm = True\<rparr>"

section \<open>Properties\<close>

subsection \<open>The constructor never raises a type or shape error\<close>

lemma init_loop_errors:
  "init_loop cs acc = Inl e \<Longrightarrow> e \<in> {IndexError, RankMismatch, InvalidArguments}"
proof (induction cs acc rule: init_loop.induct)
  case (1 acc)
  then show ?case by simp
next
  case (2 c cs Ns Ms Rs)
  then show ?case by (auto simp: Let_def split: if_splits)
qed

lemma TT_init_errors:
  "TT_init cs = Inl e \<Longrightarrow> e \<in> {IndexError, RankMismatch, InvalidArguments}"
  by (auto simp: TT_init_def Let_def split: list.splits sum.splits if_splits
      dest: init_loop_errors)

lemma mul_scalar_errors:
  "mul_scalar x a = Inl e \<Longrightarrow> e \<in> {IndexError, RankMismatch, InvalidArguments}"
  by (auto simp: mul_scalar_def split: list.splits dest: TT_init_errors)

subsection \<open>Shape checks of addition and subtraction\<close>

text \<open>
  C1.  The two objects \<open>tt_n1\<close> and \<open>tt_n3\<close> are tensor-case TT objects accepted by the
  constructor, with mode sizes \<open>[1]\<close> and \<open>[3]\<close>.  Adding or subtracting them does not
  raise ShapeMismatch: the test compares \<open>N\<close> of the first operand with itself, the
  padded cores are then added with broadcasting, and an object with mode sizes \<open>[3]\<close>
  is returned.
\<close>

theorem add_sub_mode_sizes_unchecked:
  "TT_init [core_1x1x1] = Inr tt_n1 \<and> TT_init [core_1x3x1] = Inr tt_n3
   \<and> N tt_n1 \<noteq> N tt_n3
   \<and> map_sum id N (TT_add tt_n1 (OTT tt_n3)) = Inr [3]
   \<and> map_sum id N (TT_sub tt_n1 (OTT tt_n3)) = Inr [3]"
  by (simp add: TT_add_def TT_sub_def tt_n1_def tt_n3_def core_1x1x1_def core_1x3x1_def
      add_TT_core_def edge_rank_def py_get_def bind_err_def pad_sum_def pad_def add_t_def
      binop_t_def broadcast_shapes_def TT_init_def neg_t_def)

theorem add_sub_mode_sizes_unchecked_witness:
  "map_sum id N (TT_add tt_n1 (OTT tt_n3)) = Inr [3]"
  using add_sub_mode_sizes_unchecked by simp


subsection \<open>Operands of an unsupported type\<close>

text \<open>
  C8.  For a list as second operand (neither a scalar, nor an array, nor a TT object)
  addition and subtraction do not raise InvalidArguments: the exception is created
  but not raised, and the following \<^verbatim>\<open>return result\<close> fails with UnboundLocalError.
  The same holds for \<^verbatim>\<open>None\<close>.
\<close>

theorem add_sub_unsupported_operand:
  "TT_add x (OList l) = Inl UnboundLocalError \<and> TT_sub x (OList l) = Inl UnboundLocalError
   \<and> TT_add x ONone = Inl UnboundLocalError \<and> TT_sub x ONone = Inl UnboundLocalError"
  by (simp add: TT_add_def TT_sub_def)

theorem add_sub_unsupported_operand_witness:
  "TT_add tt_n3 (OList [1, 2]) = Inl UnboundLocalError
   \<and> TT_sub tt_n3 (OList [1, 2]) = Inl UnboundLocalError"
  using add_sub_unsupported_operand [of tt_n3 "[1, 2]"] by simp


subsection \<open>Placement query\<close>

text \<open>
  C9.  \<^verbatim>\<open>is_cuda\<close> raises AttributeError for every TT object and every placement of
  its cores: the attribute \<^verbatim>\<open>core\<close> that it reads is neither an instance attribute
  nor a name of the class.
\<close>

theorem is_cuda_raises_AttributeError:
  "is_cuda on_gpu t = Inl AttributeError"
  by (simp add: is_cuda_def TT_hasattr_def TT_instance_attributes_def TT_class_attributes_def)

subsection \<open>Multiplication by a dense array\<close>

text \<open>
  C10.  For every TT object \<open>x\<close> and every dense array \<open>t\<close> (of any shape, one-element
  arrays included), \<open>x * t\<close> raises TypeError, raised by the \<^verbatim>\<open>isinstance\<close> test against
  \<^verbatim>\<open>tn.tensor\<close>.  For a Python int or float the test is not reached: the product is
  the scalar branch applied to the number, which never raises TypeError.
\<close>

theorem mul_by_dense_array_raises_TypeError:
  "TT_mul x (OTensor t) = Inl TypeError
   \<and> TT_mul x (OInt n) = mul_scalar x (of_int n) \<and> TT_mul x (OInt n) \<noteq> Inl TypeError
   \<and> TT_mul x (OFloat r) = mul_scalar x r \<and> TT_mul x (OFloat r) \<noteq> Inl TypeError"
proof -
  have a: "TT_mul x (OTensor t) = Inl TypeError"
    by (simp add: TT_mul_def or_err_def bind_err_def)
  have b: "TT_mul x (OInt n) = mul_scalar x (of_int n)"
    by (simp add: TT_mul_def or_err_def bind_err_def)
  have c: "TT_mul x (OFloat r) = mul_scalar x r"
    by (simp add: TT_mul_def or_err_def bind_err_def)
  have d: "mul_scalar x a \<noteq> Inl TypeError" for a
    using mul_scalar_errors [of x a TypeError] by auto
  show ?thesis using a b c d by simp
qed

theorem mul_by_dense_array_raises_TypeError_witness:
  "TT_mul tt_n3 (OTensor core_1x1x1) = Inl TypeError
   \<and> map_sum id N (TT_mul tt_n3 (OInt 2)) = Inr [3]"
proof -
  have "map_sum id N (mul_scalar tt_n3 (of_int 2)) = Inr [3]"
    by (simp add: mul_scalar_def tt_n3_def core_1x3x1_def scale_t_def TT_init_def)
  then show ?thesis
    using mul_by_dense_array_raises_TypeError [of tt_n3 core_1x1x1 2] by simp
qed


subsection \<open>Division by a scalar mutates the operand\<close>

text \<open>
  C7.  The object \<open>obj0\<close> has one core, stored at address 0, with entries 0, 1, 2.
  Dividing it by the scalar 2 returns an object that refers to the same core, and
  the entry 2 of the operand's core has become 1: the operand is changed.
\<close>

theorem truediv_scalar_mutates_operand:
  "TT_init_obj store0 [0] = Inr obj0
   \<and> (case TT_truediv amen store0 obj0 (DFloat 2) of
        Inl e \<Rightarrow> False
      | Inr (r, s') \<Rightarrow>
          core_refs r = core_refs obj0
          \<and> elem (cells store0 0) [0, 2, 0] = 2
          \<and> elem (cells s' 0) [0, 2, 0] = 1)"
  by (simp add: TT_truediv_def TT_init_obj_def TT_init_def store0_def obj0_def core_1x3x1_def
      div_t_def)

theorem truediv_scalar_mutates_operand_witness:
  "TT_init_obj store0 [0] = Inr obj0"
  using truediv_scalar_mutates_operand by simp


subsection \<open>Validation by the constructor\<close>

lemma last3: "length s = 3 \<Longrightarrow> s ! 2 = last s"
proof -
  assume a: "length s = 3"
  then have "s \<noteq> []" by auto
  then show ?thesis using last_conv_nth [of s] a by simp
qed
lemma last4: "length s = 4 \<Longrightarrow> s ! 3 = last s"
proof -
  assume a: "length s = 4"
  then have "s \<noteq> []" by auto
  then show ?thesis using last_conv_nth [of s] a by simp
qed

lemma init_loop_passes:
  "passes (last Rs) pre \<Longrightarrow>
   init_loop (pre @ rest) (Ns, Ms, Rs) =
   init_loop rest (Ns @ map mode_size pre, Ms @ map (\<lambda>c. shape c ! 1) (filter is_4d pre),
                   Rs @ map (\<lambda>c. last (shape c)) pre)"
proof (induction pre arbitrary: Ns Ms Rs)
  case Nil
  then show ?case by simp
next
  case (Cons c pre)
  then show ?case
    by (auto simp: Let_def mode_size_def is_4d_def last3 last4)
qed

lemma passes_dims: "passes r cs \<Longrightarrow> c \<in> set cs \<Longrightarrow> length (shape c) = 3 \<or> length (shape c) = 4"
  by (induction cs arbitrary: r) auto

lemma last_map_Cons: "last (r # map f xs) = (if xs = [] then r else f (last xs))"
  by (simp add: last_map)

lemma mixed_filter:
  assumes "\<forall>c \<in> set cs. length (shape c) = 3 \<or> length (shape c) = 4"
  shows "(length (filter is_4d cs) \<noteq> 0 \<and> length (filter is_4d cs) \<noteq> length cs) = mixed cs"
proof -
  have a: "(length (filter is_4d cs) = length cs) = (\<forall>c \<in> set cs. is_4d c)"
    by (metis filter_id_conv length_filter_less less_irrefl filter_True)
  have b: "(length (filter is_4d cs) = 0) = (\<forall>c \<in> set cs. \<not> is_4d c)"
    by (simp add: filter_empty_conv)
  show ?thesis unfolding a b mixed_def using assms by (fastforce simp: is_4d_def)
qed

lemma TT_init_passes:
  assumes "source \<noteq> []" "passes (shape (hd source) ! 0) source"
  shows "TT_init source =
     (if mixed source \<or> shape (hd source) ! 0 \<noteq> 1 \<or> last (shape (last source)) \<noteq> 1
      then Inl InvalidArguments
      else Inr \<lparr>cores = source,
                M = (if list_all is_4d source then map (\<lambda>c. shape c ! 1) source else []),
                N = map mode_size source,
                R = 1 # map (\<lambda>c. last (shape c)) source,
                is_ttm = list_all is_4d source\<rparr>)"
proof -
  obtain c0 cs where src: "source = c0 # cs" using assms(1) by (cases source) auto
  obtain r0 s0 where s0: "shape c0 = r0 # s0" using assms(2) src by (cases "shape c0") auto
  have p: "passes (last [r0]) source" using assms(2) src s0 by simp
  have dims: "\<forall>c \<in> set source. length (shape c) = 3 \<or> length (shape c) = 4"
    using passes_dims assms(2) by blast
  have loop: "init_loop source ([], [], [r0]) =
      Inr (map mode_size source, map (\<lambda>c. shape c ! 1) (filter is_4d source),
           r0 # map (\<lambda>c. last (shape c)) source)"
    using init_loop_passes [OF p, of "[]" "[]" "[]"] by simp
  have all4: "list_all is_4d source = (length (filter is_4d source) = length source)"
    by (metis filter_id_conv length_filter_less less_irrefl filter_True list_all_iff)
  have f: "list_all is_4d source \<Longrightarrow> filter is_4d source = source"
    by (simp add: list_all_iff)
  show ?thesis
    unfolding TT_init_def using mixed_filter [OF dims] all4 f
    apply (simp add: src s0 loop [unfolded src] Let_def last_map del: init_loop.simps)
    apply (auto simp: src)
    done
qed

lemma init_loop_Inr_passes:
  "init_loop cs (Ns, Ms, Rs) = Inr acc \<Longrightarrow> passes (last Rs) cs"
proof (induction cs arbitrary: Ns Ms Rs)
  case Nil
  then show ?case by simp
next
  case (Cons c cs)
  from Cons.prems show ?case
    by (auto simp: Let_def last3 last4 split: if_splits dest: Cons.IH)
qed

lemma TT_init_Inr_passes:
  assumes "TT_init source = Inr t"
  shows "source \<noteq> [] \<and> passes (shape (hd source) ! 0) source"
proof -
  obtain c0 cs where src: "source = c0 # cs"
    using assms by (cases source) (auto simp: TT_init_def)
  obtain r0 s0 where s0: "shape c0 = r0 # s0"
    using assms src by (cases "shape c0") (auto simp: TT_init_def)
  obtain acc where "init_loop source ([], [], [r0]) = Inr acc"
    using assms src s0
    by (cases "init_loop source ([], [], [r0])") (auto simp: TT_init_def simp del: init_loop.simps)
  from init_loop_Inr_passes [OF this] show ?thesis using src s0 by simp
qed


text \<open>
  C4 (amended).  The constructor checks the cores in list order and stops at the first
  core that fails.  For a list \<open>pre @ c # post\<close> whose prefix \<open>pre\<close> passes and whose core
  \<open>c\<close> has at least one dimension: if the leading dimension of \<open>c\<close> differs from the
  trailing dimension of the core before it, RankMismatch is raised; otherwise, if \<open>c\<close>
  is neither 3- nor 4-dimensional, InvalidArguments is raised.  For a non-empty list in
  which every core passes: if it mixes 3- and 4-dimensional cores, or the first leading
  rank or the last trailing rank is not 1, InvalidArguments is raised, and otherwise
  the construction succeeds.  Whenever it succeeds, the object holds the given cores
  and is tagged as a TT-matrix exactly when the cores are 4-dimensional.
\<close>

theorem TT_init_validation:
  "(pre \<noteq> [] \<and> passes (shape (hd pre) ! 0) pre \<and> shape c \<noteq> []
      \<and> shape c ! 0 \<noteq> last (shape (last pre))
      \<longrightarrow> TT_init (pre @ c # post) = Inl RankMismatch)
   \<and> (passes (shape (hd (pre @ [c])) ! 0) pre \<and> shape c \<noteq> []
      \<and> (pre \<noteq> [] \<longrightarrow> shape c ! 0 = last (shape (last pre)))
      \<and> length (shape c) \<noteq> 3 \<and> length (shape c) \<noteq> 4
      \<longrightarrow> TT_init (pre @ c # post) = Inl InvalidArguments)
   \<and> (source \<noteq> [] \<and> passes (shape (hd source) ! 0) source
      \<and> (mixed source \<or> shape (hd source) ! 0 \<noteq> 1 \<or> last (shape (last source)) \<noteq> 1)
      \<longrightarrow> TT_init source = Inl InvalidArguments)
   \<and> (source \<noteq> [] \<and> passes (shape (hd source) ! 0) source
      \<and> \<not> mixed source \<and> shape (hd source) ! 0 = 1 \<and> last (shape (last source)) = 1
      \<longrightarrow> (\<exists>t. TT_init source = Inr t))
   \<and> (TT_init source = Inr t
      \<longrightarrow> cores t = source \<and> is_ttm t = list_all is_4d source)"
proof -
  have rank: "TT_init (pre @ c # post) = Inl RankMismatch"
    if h: "pre \<noteq> []" "passes (shape (hd pre) ! 0) pre" "shape c \<noteq> []"
          "shape c ! 0 \<noteq> last (shape (last pre))"
  proof -
    obtain c0 cs where pre: "pre = c0 # cs" using h(1) by (cases pre) auto
    obtain r0 s0 where s0: "shape c0 = r0 # s0" using h(2) pre by (cases "shape c0") auto
    have p: "passes (last [r0]) pre" using h(2) pre s0 by simp
    have "init_loop (pre @ c # post) ([], [], [r0]) = Inl RankMismatch"
      using init_loop_passes [OF p, of "c # post" "[]" "[]"] h(1,3,4)
      by (simp add: Let_def last_map)
    then show ?thesis
      by (simp add: TT_init_def pre s0 del: init_loop.simps)
  qed
  have dims: "TT_init (pre @ c # post) = Inl InvalidArguments"
    if h: "passes (shape (hd (pre @ [c])) ! 0) pre" "shape c \<noteq> []"
          "pre \<noteq> [] \<longrightarrow> shape c ! 0 = last (shape (last pre))"
          "length (shape c) \<noteq> 3" "length (shape c) \<noteq> 4"
  proof -
    obtain c0 cs where src: "pre @ c # post = c0 # cs" by (cases pre) auto
    have c0: "c0 = hd (pre @ [c])" using src by (cases pre) auto
    have ne: "shape c0 \<noteq> []" using h(1,2) c0 by (cases pre) auto
    then obtain r0 s0 where s0: "shape c0 = r0 # s0" by (cases "shape c0") auto
    have p: "passes (last [r0]) pre" using h(1) c0 s0 by simp
    have l: "last (r0 # map (\<lambda>c. last (shape c)) pre) = shape c ! 0"
    proof (cases "pre = []")
      case True
      then show ?thesis using c0 s0 by simp
    next
      case False
      then show ?thesis using h(3) by (simp add: last_map)
    qed
    have "init_loop (pre @ c # post) ([], [], [r0]) = Inl InvalidArguments"
      using init_loop_passes [OF p, of "c # post" "[]" "[]"] h(2,4,5) l
      by (simp add: Let_def)
    then show ?thesis
      unfolding src [symmetric] TT_init_def using src s0
      by (simp del: init_loop.simps split: list.splits)
  qed
  have succ: "cores t = source \<and> is_ttm t = list_all is_4d source" if h: "TT_init source = Inr t"
  proof -
    have "source \<noteq> []" "passes (shape (hd source) ! 0) source"
      using TT_init_Inr_passes [OF h] by auto
    from TT_init_passes [OF this] h show ?thesis by (auto split: if_splits)
  qed
  show ?thesis
    using rank dims succ TT_init_passes [of source] by auto
qed

theorem TT_init_validation_witness:
  "TT_init [core_1x3x1, core_9x3x1] = Inl RankMismatch
   \<and> TT_init [core_1x3x1, core_1x2] = Inl InvalidArguments
   \<and> TT_init [core_9x3x1] = Inl InvalidArguments
   \<and> (\<exists>t. TT_init [core_1x3x1] = Inr t)"
proof -
  have p: "passes 1 [core_1x3x1]" "passes 9 [core_9x3x1]"
    by (simp_all add: core_1x3x1_def core_9x3x1_def)
  have a: "TT_init ([core_1x3x1] @ core_9x3x1 # []) = Inl RankMismatch"
    using TT_init_validation [of "[core_1x3x1]" core_9x3x1 "[]"] p
    by (simp add: core_1x3x1_def core_9x3x1_def)
  have b: "TT_init ([core_1x3x1] @ core_1x2 # []) = Inl InvalidArguments"
    using TT_init_validation [of "[core_1x3x1]" core_1x2 "[]"] p
    by (simp add: core_1x3x1_def core_1x2_def)
  have c: "TT_init [core_9x3x1] = Inl InvalidArguments"
    using TT_init_validation [of _ _ _ "[core_9x3x1]"] p
    by (simp add: core_9x3x1_def)
  have d: "\<exists>t. TT_init [core_1x3x1] = Inr t"
    using TT_init_validation [of _ _ _ "[core_1x3x1]"] p
    by (simp add: core_1x3x1_def mixed_def)
  show ?thesis using a b c d by simp
qed

text \<open>
  C4 as stated fails: in the list below the third core's leading dimension 9 differs
  from the second core's trailing dimension 1, yet the constructor raises
  InvalidArguments (for the 2-dimensional first core), not RankMismatch.
\<close>

theorem TT_init_first_failure_wins:
  "shape core_9x3x1 ! 0 \<noteq> last (shape core_1x3x1)
   \<and> TT_init [core_1x2, core_1x3x1, core_9x3x1] = Inl InvalidArguments
   \<and> TT_init [core_1x2, core_1x3x1, core_9x3x1] \<noteq> Inl RankMismatch"
  by (simp add: TT_init_def core_1x2_def core_1x3x1_def core_9x3x1_def)

subsection \<open>Invariant preservation\<close>

lemma passes_append:
  "passes r (xs @ ys) = (passes r xs \<and> passes (last (r # map (\<lambda>c. last (shape c)) xs)) ys)"
  by (induction xs arbitrary: r) auto

lemma passes_nth:
  "passes r cs \<Longrightarrow> i < length cs \<Longrightarrow>
   shape (cs ! i) \<noteq> [] \<and> shape (cs ! i) ! 0 = (r # map (\<lambda>c. last (shape c)) cs) ! i"
proof (induction cs arbitrary: r i)
  case Nil
  then show ?case by simp
next
  case (Cons c cs)
  then show ?case by (cases i) auto
qed

lemma passes_invariant:
  assumes "cs \<noteq> []" "passes 1 cs" "last (shape (last cs)) = 1"
  shows "tt_invariant \<lparr>cores = cs, M = ms, N = map f cs, R = 1 # map (\<lambda>c. last (shape c)) cs,
                        is_ttm = b\<rparr>"
  using assms passes_nth [OF assms(2)]
  by (simp add: tt_invariant_def last_map)

lemma TT_init_invariant:
  assumes "TT_init cs = Inr t"
  shows "tt_invariant t"
proof -
  have a: "cs \<noteq> []" "passes (shape (hd cs) ! 0) cs"
    using TT_init_Inr_passes [OF assms] by auto
  from TT_init_passes [OF a] assms
  have b: "shape (hd cs) ! 0 = 1" "last (shape (last cs)) = 1"
    and t: "t = \<lparr>cores = cs,
                M = (if list_all is_4d cs then map (\<lambda>c. shape c ! 1) cs else []),
                N = map mode_size cs,
                R = 1 # map (\<lambda>c. last (shape c)) cs,
                is_ttm = list_all is_4d cs\<rparr>"
    by (auto split: if_splits)
  show ?thesis unfolding t using passes_invariant a b by simp
qed

lemma bind_TT_init_invariant:
  "bind_err m TT_init = Inr t \<Longrightarrow> tt_invariant t"
  by (cases m) (auto simp: bind_err_def dest: TT_init_invariant)

lemma add_invariant: "TT_add x other = Inr t \<Longrightarrow> tt_invariant t"
  by (auto simp: TT_add_def split: if_splits operand.splits dest: bind_TT_init_invariant)

lemma mul_invariant: "TT_mul x other = Inr t \<Longrightarrow> tt_invariant t"
proof (cases other)
  case (OTT y)
  assume "TT_mul x other = Inr t"
  then show ?thesis using OTT
    by (auto simp: TT_mul_def split: if_splits dest: bind_TT_init_invariant)
next
  case (OInt n)
  assume "TT_mul x other = Inr t"
  then show ?thesis using OInt
    by (auto simp: TT_mul_def or_err_def bind_err_def mul_scalar_def split: list.splits
        dest: TT_init_invariant)
next
  case (OFloat r)
  assume "TT_mul x other = Inr t"
  then show ?thesis using OFloat
    by (auto simp: TT_mul_def or_err_def bind_err_def mul_scalar_def split: list.splits
        dest: TT_init_invariant)
qed (auto simp: TT_mul_def or_err_def bind_err_def)

lemma map_sum_Obj: "map_sum id Obj m = Inr (Obj t) \<Longrightarrow> m = Inr t"
  by (cases m) auto
lemma map_sum_Dense: "map_sum id Dense m \<noteq> Inr (Obj t)"
  by (cases m) auto

lemma matmul_invariant: "TT_matmul dmv x other = Inr (Obj t) \<Longrightarrow> tt_invariant t"
  by (cases other)
     (auto simp: TT_matmul_def map_sum_Dense split: if_splits
           dest!: map_sum_Obj dest: bind_TT_init_invariant)

lemma kron_invariant: "kron a b = Inr t \<Longrightarrow> tt_invariant t"
  by (cases "(a, b)" rule: kron.cases) (auto split: if_splits dest: TT_init_invariant)

lemma einsum_chain_shape:
  "einsum_chain n t c = Inr e \<Longrightarrow>
   shape e = butlast (shape t) @ tl (shape c) \<and> shape t \<noteq> [] \<and> length (shape c) = n \<and> n \<noteq> 0"
  by (auto simp: einsum_chain_def split: if_splits option.splits)

lemma einsum_exact_shape:
  "einsum_exact m n t c = Inr e \<Longrightarrow>
   shape e = butlast (shape t) @ tl (shape c) \<and> length (shape t) = m \<and> length (shape c) = n
   \<and> m \<noteq> 0 \<and> n \<noteq> 0"
  by (auto simp: einsum_exact_def split: if_splits dest: einsum_chain_shape)

lemma slice_full: "slice_indices n None None None = Inr (0, n, 1)"
  by (simp add: slice_indices_def)

lemma index_mid3:
  "length (shape c) = 3 \<Longrightarrow> index_t c [full_slice, Idx 0, full_slice] = Inr m \<Longrightarrow>
   shape m = [shape c ! 0, last (shape c)]"
  by (cases "shape c" rule: list.exhaust; cases "tl (shape c)"; cases "tl (tl (shape c))")
     (auto simp: index_t_def slice_full Let_def split: if_splits sum.splits)

lemma index_mid4:
  "length (shape c) = 4 \<Longrightarrow> index_t c [full_slice, Idx 0, Idx 0, full_slice] = Inr m \<Longrightarrow>
   shape m = [shape c ! 0, last (shape c)]"
  by (cases "shape c" rule: list.exhaust; cases "tl (shape c)"; cases "tl (tl (shape c))";
      cases "tl (tl (tl (shape c)))")
     (auto simp: index_t_def slice_full Let_def split: if_splits sum.splits)

lemma train_fold_left:
  assumes nd: "2 \<le> nd"
    and tr: "train nd (cn @ c # rest)" and ne: "cn \<noteq> []"
    and e: "shape e = butlast (shape (last cn)) @ [last (shape c)]"
  shows "train nd (butlast cn @ e # rest)"
proof -
  obtain bs l where cn: "cn = bs @ [l]" using ne by (metis append_butlast_last_id)
  have ndl: "length (shape l) = nd" "length (shape c) = nd"
    using tr by (auto simp: train_def cn)
  have le: "length (shape e) = nd" using e ndl nd by (simp add: cn)
  have lead: "shape e ! 0 = shape l ! 0"
    using e ndl nd by (simp add: cn nth_append nth_butlast)
  have tl: "last (shape e) = last (shape c)" using e by simp
  have ne_e: "shape e \<noteq> []" using le nd by auto
  have p: "passes 1 (bs @ l # c # rest)" using tr by (simp add: train_def cn)
  have "passes 1 (bs @ e # rest)"
    using p le lead tl ne_e ndl by (auto simp: passes_append)
  moreover have "last (shape (last (bs @ e # rest))) = 1"
    using tr tl by (auto simp: train_def cn)
  moreover have "\<forall>x \<in> set (bs @ e # rest). length (shape x) = nd"
    using tr le by (auto simp: train_def cn)
  ultimately show ?thesis by (simp add: train_def cn)
qed

lemma train_fold_right:
  assumes nd: "2 \<le> nd"
    and tr: "train nd (cn @ c # nx # rest)"
    and e: "shape e = [shape c ! 0] @ tl (shape nx)"
  shows "train nd (cn @ e # rest)"
proof -
  have ndl: "length (shape nx) = nd" "length (shape c) = nd"
    using tr by (auto simp: train_def)
  have le: "length (shape e) = nd" using e ndl nd by simp
  have lead: "shape e ! 0 = shape c ! 0" using e by simp
  have "tl (shape nx) \<noteq> []" using ndl nd by (cases "shape nx") auto
  then have tl: "last (shape e) = last (shape nx)"
    using e ndl nd by (cases "shape nx") (auto)
  have ne_e: "shape e \<noteq> []" using e by auto
  have p: "passes 1 (cn @ c # nx # rest)" using tr by (simp add: train_def)
  have "passes 1 (cn @ e # rest)"
    using p le lead tl ne_e ndl by (auto simp: passes_append)
  moreover have "last (shape (last (cn @ e # rest))) = 1"
    using tr tl by (auto simp: train_def)
  moreover have "\<forall>x \<in> set (cn @ e # rest). length (shape x) = nd"
    using tr le by (auto simp: train_def)
  ultimately show ?thesis by (simp add: train_def)
qed

lemma fold_left_train:
  assumes nd: "nd = (if ttm then 4 else 3)"
    and tr: "train nd (cn @ c # rest)" and ne: "cn \<noteq> []"
    and f: "fold_left ttm c cn = Inr cn'"
  shows "train nd (cn' @ rest)"
proof -
  have lc: "length (shape c) = nd" using tr by (auto simp: train_def)
  obtain m e where m: "index_t c (if ttm then [full_slice, Idx 0, Idx 0, full_slice]
                          else [full_slice, Idx 0, full_slice]) = Inr m"
    and e: "einsum_exact (if ttm then 4 else 3) 2 (last cn) m = Inr e"
    and cn': "cn' = butlast cn @ [e]"
    using f by (auto simp: fold_left_def bind_err_def split: sum.splits)
  have sm: "shape m = [shape c ! 0, last (shape c)]"
    using m lc nd index_mid3 [of c m] index_mid4 [of c m] by (auto split: if_splits)
  have "shape e = butlast (shape (last cn)) @ [last (shape c)]"
    using einsum_exact_shape [OF e] sm by simp
  from train_fold_left [OF _ tr ne this] nd show ?thesis by (simp add: cn')
qed

lemma fold_right_train:
  assumes nd: "nd = (if ttm then 4 else 3)"
    and i: "i < length cs"
    and tr: "train nd (cn @ drop i cs)"
    and f: "fold_right ttm (cs ! i) cs i = Inr cs'"
  shows "train nd (cn @ drop (Suc i) cs') \<and> length cs' = length cs"
proof -
  let ?c = "cs ! i"
  have d: "drop i cs = ?c # drop (Suc i) cs" using i by (simp add: Cons_nth_drop_Suc)
  have lc: "length (shape ?c) = nd" using tr d by (auto simp: train_def)
  obtain m e where m: "index_t ?c (if ttm then [full_slice, Idx 0, Idx 0, full_slice]
                          else [full_slice, Idx 0, full_slice]) = Inr m"
    and i1: "Suc i < length cs"
    and e: "einsum_exact 2 (if ttm then 4 else 3) m (cs ! Suc i) = Inr e"
    and cs': "cs' = cs[Suc i := e]"
    using f by (auto simp: fold_right_def bind_err_def py_get_def split: sum.splits if_splits)
  have d1: "drop (Suc i) cs = cs ! Suc i # drop (Suc (Suc i)) cs"
    using i1 by (simp add: Cons_nth_drop_Suc)
  have sm: "shape m = [shape ?c ! 0, last (shape ?c)]"
    using m lc nd index_mid3 [of ?c m] index_mid4 [of ?c m] by (auto split: if_splits)
  have se: "shape e = [shape ?c ! 0] @ tl (shape (cs ! Suc i))"
    using einsum_exact_shape [OF e] sm by simp
  have tr': "train nd (cn @ ?c # cs ! Suc i # drop (Suc (Suc i)) cs)"
    using tr d d1 by simp
  have d2: "drop (Suc i) cs' = e # drop (Suc (Suc i)) cs"
    using i1 by (simp add: cs' drop_update_swap [symmetric] Cons_nth_drop_Suc [symmetric])
  from train_fold_right [OF _ tr' se] nd show ?thesis by (simp add: d2) (simp add: cs')
qed

lemma map_sum_id_Inr: "(map_sum id f m = Inr y) = (\<exists>v. m = Inr v \<and> f v = y)"
  by (cases m) auto

lemma reduce_step_train:
  assumes nd: "nd = (if ttm then 4 else 3)"
    and i: "i < length cs"
    and tr: "train nd (cn @ drop i cs)"
    and st: "reduce_step ttm d (cs, cn) i = Inr (cs', cn')"
  shows "train nd (cn' @ drop (Suc i) cs') \<and> length cs' = length cs"
proof -
  have d: "drop i cs = cs ! i # drop (Suc i) cs" using i by (simp add: Cons_nth_drop_Suc)
  consider (keep) "cs' = cs" "cn' = cn @ [cs ! i]"
    | (left) "cs' = cs" "cn \<noteq> []" "fold_left ttm (cs ! i) cn = Inr cn'"
    | (right) "cn' = cn" "fold_right ttm (cs ! i) cs i = Inr cs'"
    using st i
    by (auto simp: reduce_step_def bind_err_def py_get_def Let_def map_sum_id_Inr
             split: sum.splits if_splits)
  then show ?thesis
  proof cases
    case keep
    then show ?thesis using tr d by simp
  next
    case left
    from fold_left_train [OF nd _ left(2,3), of "drop (Suc i) cs"] tr d left(1)
    show ?thesis by simp
  next
    case right
    from fold_right_train [OF nd i tr right(2)] right(1) show ?thesis by simp
  qed
qed

lemma reduce_loop_train:
  assumes nd: "nd = (if ttm then 4 else 3)"
  shows "n \<le> length cs \<Longrightarrow> i \<le> n \<Longrightarrow> train nd (cn @ drop i cs) \<Longrightarrow>
         fold_err (reduce_step ttm d) (cs, cn) [i..<n] = Inr (cs', cn') \<Longrightarrow>
         train nd (cn' @ drop n cs') \<and> length cs' = length cs"
proof (induction "n - i" arbitrary: i cs cn)
  case 0
  then show ?case by simp
next
  case (Suc k)
  then have lt: "i < n" by simp
  then have up: "[i..<n] = i # [Suc i..<n]" by (simp add: upt_conv_Cons)
  obtain cs1 cn1 where s1: "reduce_step ttm d (cs, cn) i = Inr (cs1, cn1)"
    and rest: "fold_err (reduce_step ttm d) (cs1, cn1) [Suc i..<n] = Inr (cs', cn')"
    using Suc.prems(4) unfolding up by (auto split: sum.splits)
  have il: "i < length cs" using lt Suc.prems(1) by simp
  from reduce_step_train [OF nd il Suc.prems(3) s1]
  have t1: "train nd (cn1 @ drop (Suc i) cs1)" and l1: "length cs1 = length cs" by auto
  have "k = n - Suc i" using Suc.hyps(2) by simp
  from Suc.hyps(1) [OF this _ _ t1 rest] Suc.prems(1) lt l1 show ?case by simp
qed

lemma map_err_py_get:
  "map_err (\<lambda>c. py_get (f c) k) cs = Inr xs \<Longrightarrow> xs = map (\<lambda>c. f c ! k) cs"
  by (induction cs arbitrary: xs) (auto simp: py_get_def split: sum.splits if_splits)

lemma train_invariant:
  assumes tr: "train nd cn" and nd: "nd = 3 \<or> nd = 4"
    and rs: "rs = map (\<lambda>c. shape c ! (nd - 1)) cn" and ns: "length ns = length cn"
    and t: "cores t = cn" "N t = ns" "R t = 1 # rs"
  shows "tt_invariant t"
proof -
  have l: "c \<in> set cn \<Longrightarrow> shape c ! (nd - 1) = last (shape c)" for c
    using tr nd last3 [of "shape c"] last4 [of "shape c"] by (auto simp: train_def)
  then have rs': "rs = map (\<lambda>c. last (shape c)) cn" using rs by simp
  have p: "passes 1 cn" "cn \<noteq> []" "last (shape (last cn)) = 1" using tr by (auto simp: train_def)
  show ?thesis
    using p passes_nth [OF p(1)] ns
    by (simp add: tt_invariant_def t rs' last_map)
qed

lemma TT_init_train:
  assumes "TT_init cs = Inr t"
  shows "train (if is_ttm t then 4 else 3) (cores t) \<and> length (N t) = length (cores t)"
proof -
  have a: "cs \<noteq> []" "passes (shape (hd cs) ! 0) cs"
    using TT_init_Inr_passes [OF assms] by auto
  from TT_init_passes [OF a] assms
  have b: "shape (hd cs) ! 0 = 1" "last (shape (last cs)) = 1" "\<not> mixed cs"
    and t: "cores t = cs" "is_ttm t = list_all is_4d cs" "N t = map mode_size cs"
    by (auto split: if_splits)
  have dims: "\<forall>c \<in> set cs. length (shape c) = 3 \<or> length (shape c) = 4"
    using passes_dims a(2) by blast
  have "\<forall>c \<in> set cs. length (shape c) = (if list_all is_4d cs then 4 else 3)"
    using dims b(3) by (auto simp: mixed_def list_all_iff is_4d_def)
  then show ?thesis using a b by (simp add: t train_def)
qed

lemma reduce_dims_invariant:
  assumes i: "TT_init cs = Inr t0" and r: "reduce_dims t0 = Inr t"
  shows "tt_invariant t"
proof -
  let ?nd = "if is_ttm t0 then 4 else 3 :: nat"
  have tr0: "train ?nd (cores t0)" and ln: "length (N t0) = length (cores t0)"
    using TT_init_train [OF i] by auto
  obtain cs' cn where lp: "fold_err (reduce_step (is_ttm t0) (length (N t0))) (cores t0, [])
                 [0..<length (N t0)] = Inr (cs', cn)"
    using r by (auto simp: reduce_dims_def bind_err_def split: sum.splits)
  have "train ?nd (cn @ drop (length (N t0)) cs') \<and> length cs' = length (cores t0)"
    by (rule reduce_loop_train [OF _ _ _ _ lp]) (use tr0 ln in auto)
  then have tr: "train ?nd cn" using ln by auto
  obtain ns rs where ns: "map_err (\<lambda>c. py_get (shape c) 1) cn = Inr ns"
    and rs: "map_err (\<lambda>c. py_get (shape c) (?nd - 1)) cn = Inr rs"
    and t: "cores t = cn" "N t = ns" "R t = 1 # rs"
    using r lp by (auto simp: reduce_dims_def bind_err_def Let_def split: sum.splits if_splits)
  show ?thesis
    by (rule train_invariant [OF tr _ map_err_py_get [OF rs] _ t])
       (use map_err_py_get [OF ns] in auto)
qed

lemma getitem_invariant: "TT_getitem x index = Inr (Obj t) \<Longrightarrow> tt_invariant t"
proof (cases index)
  case (ITuple items)
  assume g: "TT_getitem x index = Inr (Obj t)"
  then obtain cn t0 where "TT_init cn = Inr t0" "reduce_dims t0 = Inr t"
    using ITuple
    by (auto simp: TT_getitem_def bind_err_def Let_def split: if_splits sum.splits)
  then show ?thesis by (rule reduce_dims_invariant)
next
  case (IInt j)
  assume "TT_getitem x index = Inr (Obj t)"
  then show ?thesis using IInt
    by (auto simp: TT_getitem_def bind_err_def map_sum_Dense split: if_splits sum.splits)
qed (auto simp: TT_getitem_def)

text \<open>
  C2.  Every TT object returned by addition, elementwise multiplication, contraction,
  the Kronecker product (\<^verbatim>\<open>kron\<close> and \<^verbatim>\<open>**\<close>) and slicing satisfies the structural
  invariants, whatever the operands are.
\<close>

theorem operators_preserve_invariants:
  "(TT_add x other = Inr t \<longrightarrow> tt_invariant t)
   \<and> (TT_mul x other = Inr t \<longrightarrow> tt_invariant t)
   \<and> (TT_matmul dense_matvec x other = Inr (Obj t) \<longrightarrow> tt_invariant t)
   \<and> (kron a b = Inr t \<longrightarrow> tt_invariant t)
   \<and> (TT_pow x other = Inr t \<longrightarrow> tt_invariant t)
   \<and> (TT_getitem x index = Inr (Obj t) \<longrightarrow> tt_invariant t)"
  using add_invariant mul_invariant matmul_invariant kron_invariant getitem_invariant
  by (auto simp: TT_pow_def)

lemma ex_add: "\<exists>t. TT_add tt_n3 (OTT tt_n3) = Inr t"
  by (simp add: TT_add_def tt_n3_def core_1x3x1_def
      add_TT_core_def edge_rank_def py_get_def bind_err_def pad_sum_def pad_def add_t_def
      binop_t_def broadcast_shapes_def TT_init_def)

lemma ex_mul: "\<exists>t. TT_mul tt_n3 (OTT tt_n3) = Inr t"
  by (simp add: TT_mul_def tt_n3_def core_1x3x1_def mul_core_def py_get_def bind_err_def
      einsum_aib_min_amibn_def shared_size_def reshape_def numel_def TT_init_def)

lemma ex_matmul: "\<exists>t. TT_matmul dmv eye3 (OTT tt_n3) = Inr (Obj t)"
  by (simp add: TT_matmul_def eye3_def core_1x3x3x1_def tt_n3_def core_1x3x1_def matvec_core_def py_get_def bind_err_def
      einsum_ijkl_mkp_imjlp_def shared_size_def reshape_def numel_def TT_init_def)

lemma ex_kron: "\<exists>t. kron (OTT tt_n3) (OTT tt_n1) = Inr t"
  by (simp add: tt_n3_def tt_n1_def core_1x3x1_def core_1x1x1_def TT_init_def)

lemma ex_getitem: "\<exists>t. TT_getitem tt_n3 (ITuple [Item (Slc (Some 1) None None)]) = Inr (Obj t)"
  by (simp add: TT_getitem_def tt_n3_def core_1x3x1_def slice_core_def py_get_def bind_err_def
      index_t_def slice_indices_def clamp_bound_def TT_init_def reduce_dims_def reduce_step_def
      mode_is_1_def Let_def)

theorem operators_preserve_invariants_witness:
  "(\<exists>t. TT_add tt_n3 (OTT tt_n3) = Inr t \<and> tt_invariant t)
   \<and> (\<exists>t. TT_mul tt_n3 (OTT tt_n3) = Inr t \<and> tt_invariant t)
   \<and> (\<exists>t. TT_matmul (\<lambda>cs u. Inl RuntimeError) eye3 (OTT tt_n3) = Inr (Obj t)
          \<and> tt_invariant t)
   \<and> (\<exists>t. kron (OTT tt_n3) (OTT tt_n1) = Inr t \<and> tt_invariant t)
   \<and> (\<exists>t. TT_getitem tt_n3 (ITuple [Item (Slc (Some 1) None None)]) = Inr (Obj t)
          \<and> tt_invariant t)"
  using ex_add ex_mul ex_matmul [of "\<lambda>cs u. Inl RuntimeError"] ex_kron ex_getitem
    operators_preserve_invariants
  by blast

end
